theory Spec2Isabelle
  imports Complex_Main
begin

section \<open>Data model of \<^verbatim>\<open>PasswordManager.tsx\<close>\<close>

text \<open>
  The \<^verbatim>\<open>Password\<close> interface. The optional field \<^verbatim>\<open>notes?\<close> is an option; the field
  names carry a suffix because the form state below has fields of the same names
  (there, \<open>notes\<close> is a reserved word of Isabelle and is written \<open>notes_f\<close>).
\<close>

record Password =
  id_p :: string
  website_p :: string
  username_p :: string
  password_p :: string
  notes_p :: "string option"
  created_at :: string

text \<open>The object held by \<^verbatim>\<open>formData\<close>.\<close>

record FormData =
  website :: string
  username :: string
  password :: string
  notes_f :: string

text \<open>The argument of \<^verbatim>\<open>toast\<close>; \<^verbatim>\<open>description\<close> and \<^verbatim>\<open>variant\<close> may be left out.\<close>

record ToastArg =
  title :: string
  description :: "string option"
  variant :: "string option"

text \<open>
  What the component does to its collaborators, in the order it does it: the calls on
  the remote table and the notifications.
\<close>

datatype event =
    RemoteSelect
  | RemoteUpdate FormData string
  | RemoteInsert "FormData list"
  | Toast ToastArg

text \<open>
  The remote client answers with \<^verbatim>\<open>{ data, error }\<close>, each of which may be null. The
  answers are inputs of the model: every theorem holds for whatever the remote store
  answers.
\<close>

datatype remote_error = RemoteError string

record select_response =
  data :: "Password list option"
  error :: "remote_error option"

text \<open>
  The \<^verbatim>\<open>useState\<close> cells of the component. \<^verbatim>\<open>showPasswords\<close> is a plain JavaScript
  object used as a dictionary: the map holds its own properties.
\<close>

record state =
  passwords :: "Password list"
  loading :: bool
  showPasswords :: "string \<rightharpoonup> bool"
  isAddDialogOpen :: bool
  editingPassword :: "Password option"
  formData :: FormData

definition emptyForm :: FormData where
  "emptyForm = \<lparr>website = '''', username = '''', password = '''', notes_f = ''''\<rparr>"

text \<open>The initial values given to \<^verbatim>\<open>useState\<close>.\<close>

definition initial_state :: state where
  "initial_state =
     \<lparr>passwords = [], loading = True, showPasswords = Map.empty,
      isAddDialogOpen = False, editingPassword = None, formData = emptyForm\<rparr>"

section \<open>\<^verbatim>\<open>fetchPasswords\<close>\<close>

text \<open>
  \<^verbatim>\<open>fetchPasswords\<close> issues the select and awaits the answer; the rest of its body runs
  when the answer arrives. \<open>fetchPasswords_resume\<close> is that rest: it sets state cells to
  values that do not depend on the state it finds. \<^verbatim>\<open>data || []\<close> replaces a null
  \<^verbatim>\<open>data\<close> by the empty array (an empty array is truthy and is kept).
\<close>

definition fetchPasswords_resume :: "select_response \<Rightarrow> state \<Rightarrow> event list \<times> state" where
  "fetchPasswords_resume resp s =
     (case error resp of
        Some e \<Rightarrow>
          ([Toast \<lparr>title = ''Error'', description = Some ''Failed to load passwords'',
                   variant = Some ''destructive''\<rparr>],
           s\<lparr>loading := False\<rparr>)
      | None \<Rightarrow>
          ([], s\<lparr>passwords := (case data resp of None \<Rightarrow> [] | Some d \<Rightarrow> d),
                 loading := False\<rparr>))"

definition fetchPasswords :: "select_response \<Rightarrow> state \<Rightarrow> event list \<times> state" where
  "fetchPasswords resp s =
     (let (evs, s') = fetchPasswords_resume resp s in (RemoteSelect # evs, s'))"

section \<open>\<^verbatim>\<open>generatePassword\<close>\<close>

definition chars :: string where
  "chars = ''ABCDEFGHIJKLMNOPQRSTUVWXYZabcdefghijklmnopqrstuvwxyz0123456789!@#$%^&*''"

text \<open>\<^verbatim>\<open>const length = 16\<close>; the name \<open>length\<close> is taken by the list function.\<close>

definition length_c :: nat where
  "length_c = 16"

text \<open>
  \<^verbatim>\<open>String.prototype.charAt\<close>: the one-character string at the index, and the empty
  string when the index is out of range.
\<close>

definition charAt :: "string \<Rightarrow> int \<Rightarrow> string" where
  "charAt str pos = (if 0 \<le> pos \<and> pos < int (length str) then [str ! nat pos] else [])"

subsection \<open>The Numbers of \<^verbatim>\<open>Math.random() * chars.length\<close>\<close>

text \<open>
  A JavaScript Number is an IEEE 754 binary64 value. The Numbers of this function are
  finite and not negative (\<^verbatim>\<open>Math.random()\<close> is in \<open>[0, 1)\<close>, \<^verbatim>\<open>chars.length\<close> is 70), so
  a Number is modelled by a mantissa and an exponent and stands for
  \<open>mantissa * 2 ^ exponent\<close>. It is a binary64 value when the mantissa has at most 53
  bits and the exponent is in the range of the format; several pairs stand for the same
  value.
\<close>

record double =
  mantissa :: nat
  exponent :: int



text \<open>The number of binary digits of \<open>n\<close>.\<close>

fun bit_length :: "nat \<Rightarrow> nat" where
  "bit_length n = (if n = 0 then 0 else Suc (bit_length (n div 2)))"

declare bit_length.simps [simp del]

text \<open>
  The binary64 value nearest to \<open>M * 2 ^ E\<close>, ties to the even mantissa, as every
  arithmetic operation of the language rounds its exact result: \<open>s\<close> low bits of \<open>M\<close>
  are dropped, as many as leave 53 bits and an exponent of at least \<open>-1074\<close>. (A result
  of \<open>2 ^ 1024\<close> or more would be \<^verbatim>\<open>Infinity\<close>; the products of this function are
  below 70.)
\<close>

definition round_to_double :: "nat \<Rightarrow> int \<Rightarrow> double" where
  "round_to_double M E =
     (let s = max (bit_length M - 53) (nat (- 1074 - E));
          q = M div 2 ^ s;
          r = M mod 2 ^ s
      in if 2 ^ s < 2 * r \<or> (2 * r = 2 ^ s \<and> odd q)
         then \<lparr>mantissa = q + 1, exponent = E + int s\<rparr>
         else \<lparr>mantissa = q, exponent = E + int s\<rparr>)"

text \<open>The operator \<^verbatim>\<open>*\<close> on two such Numbers: the exact product, rounded.\<close>

definition mul_double :: "double \<Rightarrow> double \<Rightarrow> double" where
  "mul_double x y = round_to_double (mantissa x * mantissa y) (exponent x + exponent y)"

text \<open>\<^verbatim>\<open>Math.floor\<close> of such a Number, as the integer that \<^verbatim>\<open>charAt\<close> makes of it.\<close>

definition Math_floor :: "double \<Rightarrow> int" where
  "Math_floor d =
     (if 0 \<le> exponent d then int (mantissa d * 2 ^ nat (exponent d))
      else int (mantissa d div 2 ^ nat (- exponent d)))"

text \<open>The Number of a length (an integer below \<open>2 ^ 53\<close> is a binary64 value).\<close>

definition number :: "nat \<Rightarrow> double" where
  "number n = \<lparr>mantissa = n, exponent = 0\<rparr>"

subsection \<open>The function\<close>

text \<open>
  The loop of \<^verbatim>\<open>generatePassword\<close>. \<open>random i\<close> is the Number that the call of
  \<^verbatim>\<open>Math.random()\<close> in iteration \<open>i\<close> returns.
\<close>

function generatePassword_loop :: "(nat \<Rightarrow> double) \<Rightarrow> nat \<Rightarrow> string \<Rightarrow> string" where
  "generatePassword_loop random i result =
     (if i < length_c
      then generatePassword_loop random (i + 1)
             (result @ charAt chars (Math_floor (mul_double (random i) (number (length chars)))))
      else result)"
  by pat_completeness auto
termination
  by (relation "measure (\<lambda>(random, i, result). length_c - i)") auto

definition generatePassword :: "(nat \<Rightarrow> double) \<Rightarrow> state \<Rightarrow> event list \<times> state" where
  "generatePassword random s =
     (let result = generatePassword_loop random 0 []
      in ([], s\<lparr>formData := (formData s)\<lparr>password := result\<rparr>\<rparr>))"

section \<open>\<^verbatim>\<open>handleSubmit\<close>\<close>

text \<open>
  \<open>handleSubmit err s\<close> is the handler run to its end from the state \<open>s\<close>, where
  \<open>err\<close> is the \<^verbatim>\<open>error\<close> of the answer to its update or insert. The result has the
  events, the state when the handler returns, and whether a \<^verbatim>\<open>fetchPasswords()\<close> is
  in flight: the handler calls it without \<^verbatim>\<open>await\<close>, so the select is issued at once
  and its answer is handled after the handler has returned.
\<close>

definition handleSubmit :: "remote_error option \<Rightarrow> state \<Rightarrow> event list \<times> state \<times> bool" where
  "handleSubmit err s =
     (let (evs, s1, fetching) =
        (case editingPassword s of
           Some ep \<Rightarrow>
             (case err of
                Some e \<Rightarrow>
                  ([RemoteUpdate (formData s) (id_p ep),
                    Toast \<lparr>title = ''Error'', description = Some ''Failed to update password'',
                           variant = Some ''destructive''\<rparr>],
                   s, False)
              | None \<Rightarrow>
                  ([RemoteUpdate (formData s) (id_p ep),
                    Toast \<lparr>title = ''Password updated successfully'', description = None,
                           variant = None\<rparr>,
                    RemoteSelect],
                   s\<lparr>editingPassword := None\<rparr>, True))
         | None \<Rightarrow>
             (case err of
                Some e \<Rightarrow>
                  ([RemoteInsert [formData s],
                    Toast \<lparr>title = ''Error'', description = Some ''Failed to add password'',
                           variant = Some ''destructive''\<rparr>],
                   s, False)
              | None \<Rightarrow>
                  ([RemoteInsert [formData s],
                    Toast \<lparr>title = ''Password added successfully'', description = None,
                           variant = None\<rparr>,
                    RemoteSelect],
                   s\<lparr>isAddDialogOpen := False\<rparr>, True)))
      in (evs, s1\<lparr>formData := emptyForm\<rparr>, fetching))"

text \<open>
  The handler together with the rest of the \<^verbatim>\<open>fetchPasswords()\<close> it started, if any:
  \<open>resp\<close> is the answer to that select.
\<close>

definition handleSubmit_settled ::
  "remote_error option \<Rightarrow> select_response \<Rightarrow> state \<Rightarrow> event list \<times> state" where
  "handleSubmit_settled err resp s =
     (let (evs, s1, fetching) = handleSubmit err s
      in if fetching
         then (let (evs2, s2) = fetchPasswords_resume resp s1 in (evs @ evs2, s2))
         else (evs, s1))"

section \<open>The edit button\<close>

text \<open>
  \<^verbatim>\<open>a || ""\<close> on an optional string: the empty string when \<open>a\<close> is absent or empty.
\<close>

definition or_empty :: "string option \<Rightarrow> string" where
  "or_empty a = (case a of None \<Rightarrow> [] | Some x \<Rightarrow> if x = [] then [] else x)"

text \<open>The \<^verbatim>\<open>onClick\<close> of the edit button of the card of \<open>p\<close>.\<close>

definition edit_onClick :: "Password \<Rightarrow> state \<Rightarrow> event list \<times> state" where
  "edit_onClick p s =
     ([], s\<lparr>editingPassword := Some p,
            formData := \<lparr>website = website_p p, username = username_p p,
                         password = password_p p, notes_f = or_empty (notes_p p)\<rparr>\<rparr>)"

section \<open>\<^verbatim>\<open>togglePasswordVisibility\<close>\<close>

text \<open>
  \<^verbatim>\<open>showPasswords\<close> starts as the object literal \<^verbatim>\<open>{}\<close> and every later value is an
  object literal too, so its prototype is \<^verbatim>\<open>Object.prototype\<close>. Reading \<^verbatim>\<open>prev[id]\<close>
  gives the own property when there is one, else the property that
  \<^verbatim>\<open>Object.prototype\<close> has under that name (a function, or the prototype object itself
  for \<^verbatim>\<open>__proto__\<close>), else \<^verbatim>\<open>undefined\<close>.
\<close>

definition Object_prototype :: "string list" where
  "Object_prototype =
     [''constructor'', ''hasOwnProperty'', ''isPrototypeOf'', ''propertyIsEnumerable'',
      ''toLocaleString'', ''toString'', ''valueOf'', ''__proto__'',
      ''__defineGetter__'', ''__defineSetter__'', ''__lookupGetter__'', ''__lookupSetter__'']"

datatype js_value = Undefined | Boolean bool | Object

fun truthy :: "js_value \<Rightarrow> bool" where
  "truthy Undefined = False"
| "truthy (Boolean b) = b"
| "truthy Object = True"

definition get_property :: "(string \<rightharpoonup> bool) \<Rightarrow> string \<Rightarrow> js_value" where
  "get_property obj key =
     (case obj key of
        Some b \<Rightarrow> Boolean b
      | None \<Rightarrow> if key \<in> set Object_prototype then Object else Undefined)"

text \<open>
  \<^verbatim>\<open>{ ...prev, [id]: !prev[id] }\<close>: the own properties of \<open>prev\<close>, with the own
  property \<open>ident\<close> set (a computed key defines an own property under any name).
\<close>

definition togglePasswordVisibility :: "string \<Rightarrow> state \<Rightarrow> event list \<times> state" where
  "togglePasswordVisibility ident s =
     ([], s\<lparr>showPasswords :=
              (showPasswords s)(ident \<mapsto> \<not> truthy (get_property (showPasswords s) ident))\<rparr>)"

text \<open>
  The test \<^verbatim>\<open>showPasswords[password.id] ? ... : ...\<close> of the card: whether the password
  of the record with this id is rendered in clear.
\<close>

definition shown :: "state \<Rightarrow> string \<Rightarrow> bool" where
  "shown s ident = truthy (get_property (showPasswords s) ident)"

text \<open>Toggling a list of ids one after the other.\<close>

fun toggle_all :: "string list \<Rightarrow> state \<Rightarrow> state" where
  "toggle_all [] s = s"
| "toggle_all (ident # idents) s = toggle_all idents (snd (togglePasswordVisibility ident s))"

section \<open>Example values\<close>

definition example_record :: Password where
  "example_record =
     \<lparr>id_p = ''7'', website_p = ''example.com'', username_p = ''a@b.com'',
      password_p = ''x'', notes_p = None, created_at = ''2024-01-01T00:00:00Z''\<rparr>"

definition example_form :: FormData where
  "example_form =
     \<lparr>website = ''example.org'', username = ''me'', password = ''hunter2'', notes_f = ''n''\<rparr>"

definition example_state :: state where
  "example_state =
     \<lparr>passwords = [example_record], loading = False, showPasswords = Map.empty,
      isAddDialogOpen = True, editingPassword = None, formData = example_form\<rparr>"

definition example_edit_state :: state where
  "example_edit_state =
     example_state\<lparr>isAddDialogOpen := False, editingPassword := Some example_record\<rparr>"

definition example_error :: remote_error where
  "example_error = RemoteError ''timeout''"

text \<open>
  Sixteen values of \<^verbatim>\<open>Math.random()\<close>: the Number \<^verbatim>\<open>0.7\<close>, which is
  \<open>3152519739159347 / 2 ^ 52\<close>, and then \<open>i / 16\<close> for \<open>i\<close> from 1 to 15.
\<close>

definition example_random :: "nat \<Rightarrow> double" where
  "example_random i =
     (if i = 0 then \<lparr>mantissa = 3152519739159347, exponent = - 52\<rparr>
      else \<lparr>mantissa = i, exponent = - 4\<rparr>)"

section \<open>Properties of \<^verbatim>\<open>fetchPasswords\<close>\<close>

lemma fetchPasswords_resume_loading:
  "loading (snd (fetchPasswords_resume resp s)) = False"
  by (simp add: fetchPasswords_resume_def split: option.split)

text \<open>
  Claim C9. After every call of \<^verbatim>\<open>fetchPasswords\<close>, whether the remote select failed or
  succeeded, \<^verbatim>\<open>loading\<close> is false.
\<close>

theorem C9_fetchPasswords_clears_loading:
  "loading (snd (fetchPasswords resp s)) = False"
  using fetchPasswords_resume_loading [of resp s]
  by (simp add: fetchPasswords_def split_beta)

text \<open>
  Claim C5. When the remote select fails, \<^verbatim>\<open>fetchPasswords\<close> leaves \<^verbatim>\<open>passwords\<close> as
  it was; the failure is reported by one destructive toast and nothing else happens
  but \<^verbatim>\<open>loading\<close> becoming false.
\<close>

theorem C5_fetchPasswords_failure_keeps_passwords:
  assumes "error resp = Some e"
  shows "passwords (snd (fetchPasswords resp s)) = passwords s \<and>
         fetchPasswords resp s =
           ([RemoteSelect,
             Toast \<lparr>title = ''Error'', description = Some ''Failed to load passwords'',
                    variant = Some ''destructive''\<rparr>],
            s\<lparr>loading := False\<rparr>)"
  using assms by (simp add: fetchPasswords_def fetchPasswords_resume_def)

theorem C5_witness:
  "error \<lparr>data = None, error = Some example_error\<rparr> = Some example_error \<and>
   passwords (snd (fetchPasswords \<lparr>data = None, error = Some example_error\<rparr> example_state))
     = [example_record]"
  using C5_fetchPasswords_failure_keeps_passwords
          [of "\<lparr>data = None, error = Some example_error\<rparr>" example_error example_state]
  by (simp add: example_state_def)

text \<open>
  Claim C4. When the remote select succeeds, \<^verbatim>\<open>passwords\<close> becomes the sequence the
  select returned, whatever it held before, and no error is reported; when the select
  returns nothing (an empty array or null), \<^verbatim>\<open>passwords\<close> becomes the empty list.
\<close>

theorem C4_fetchPasswords_success_replaces_passwords:
  assumes "error resp = None"
  shows "passwords (snd (fetchPasswords resp s)) = (case data resp of None \<Rightarrow> [] | Some d \<Rightarrow> d) \<and>
         fst (fetchPasswords resp s) = [RemoteSelect]"
  using assms by (simp add: fetchPasswords_def fetchPasswords_resume_def)

theorem C4_witness:
  "passwords example_state = [example_record] \<and>
   passwords (snd (fetchPasswords \<lparr>data = Some [], error = None\<rparr> example_state)) = [] \<and>
   fst (fetchPasswords \<lparr>data = Some [], error = None\<rparr> example_state) = [RemoteSelect] \<and>
   passwords (snd (fetchPasswords \<lparr>data = None, error = None\<rparr> example_state)) = [] \<and>
   passwords (snd (fetchPasswords \<lparr>data = Some [example_record, example_record], error = None\<rparr> initial_state))
     = [example_record, example_record]"
  using C4_fetchPasswords_success_replaces_passwords
          [of "\<lparr>data = Some [], error = None\<rparr>" example_state]
        C4_fetchPasswords_success_replaces_passwords
          [of "\<lparr>data = None, error = None\<rparr>" example_state]
        C4_fetchPasswords_success_replaces_passwords
          [of "\<lparr>data = Some [example_record, example_record], error = None\<rparr>" initial_state]
  by (simp add: example_state_def)

section \<open>Properties of \<^verbatim>\<open>handleSubmit\<close>\<close>

text \<open>
  Claim C1. After every \<^verbatim>\<open>handleSubmit\<close>, in the edit branch and in the create branch,
  whether the remote call failed or succeeded, \<^verbatim>\<open>formData\<close> is the form of four empty
  strings: when the handler returns, and still when the select it started has been
  answered.
\<close>

theorem C1_handleSubmit_resets_formData:
  "formData (fst (snd (handleSubmit err s))) = emptyForm \<and>
   formData (snd (handleSubmit_settled err resp s)) = emptyForm"
  by (simp add: handleSubmit_settled_def handleSubmit_def fetchPasswords_resume_def
        split: option.split)

text \<open>
  Claim C2, as the code has it. When \<^verbatim>\<open>editingPassword\<close> is set and the remote update
  fails, every state cell other than \<^verbatim>\<open>formData\<close> keeps its value (in particular
  \<^verbatim>\<open>passwords\<close> and \<^verbatim>\<open>editingPassword\<close>), no select is started, and the events are the
  update and the toast of the failure. The claim as written also says that the form is
  not cleared; the theorem after this one shows a failed update that clears it.
\<close>

theorem C2_update_failure_keeps_state_but_formData:
  assumes "editingPassword s = Some ep"
  shows "handleSubmit_settled (Some e) resp s =
           ([RemoteUpdate (formData s) (id_p ep),
             Toast \<lparr>title = ''Error'', description = Some ''Failed to update password'',
                    variant = Some ''destructive''\<rparr>],
            fst (snd (handleSubmit (Some e) s))) \<and>
         passwords (fst (snd (handleSubmit (Some e) s))) = passwords s \<and>
         editingPassword (fst (snd (handleSubmit (Some e) s))) = editingPassword s \<and>
         (fst (snd (handleSubmit (Some e) s)))\<lparr>formData := formData s\<rparr> = s"
  using assms by (simp add: handleSubmit_settled_def handleSubmit_def)

theorem C2_witness:
  "editingPassword example_edit_state = Some example_record \<and>
   passwords (snd (handleSubmit_settled (Some example_error) \<lparr>data = None, error = None\<rparr>
                     example_edit_state)) = [example_record] \<and>
   editingPassword (snd (handleSubmit_settled (Some example_error) \<lparr>data = None, error = None\<rparr>
                     example_edit_state)) = Some example_record"
  using C2_update_failure_keeps_state_but_formData
          [of example_edit_state example_record example_error "\<lparr>data = None, error = None\<rparr>"]
  by (simp add: example_edit_state_def example_state_def)

text \<open>
  A failed update that changes the state: \<^verbatim>\<open>editingPassword\<close> is set, the form holds
  what the user typed, the update fails, and the form is empty afterwards.
\<close>

theorem C2_counterexample:
  "editingPassword example_edit_state = Some example_record \<and>
   formData example_edit_state = example_form \<and>
   formData (fst (snd (handleSubmit (Some example_error) example_edit_state))) = emptyForm \<and>
   formData (fst (snd (handleSubmit (Some example_error) example_edit_state)))
     \<noteq> formData example_edit_state"
  by (simp add: handleSubmit_def example_edit_state_def example_state_def emptyForm_def
        example_form_def)

text \<open>
  Claim C6. When \<^verbatim>\<open>editingPassword\<close> is not set, \<^verbatim>\<open>handleSubmit\<close> issues an insert whose
  payload is \<^verbatim>\<open>formData\<close>. If the insert fails, \<^verbatim>\<open>isAddDialogOpen\<close> keeps its value (an
  open dialog stays open) and no select is started. If it succeeds, \<^verbatim>\<open>isAddDialogOpen\<close>
  becomes false and \<^verbatim>\<open>fetchPasswords\<close> is called: the select is issued and its answer is
  handled.
\<close>

theorem C6_create_branch:
  assumes "editingPassword s = None"
  shows "(err \<noteq> None \<longrightarrow>
            handleSubmit err s =
              ([RemoteInsert [formData s],
                Toast \<lparr>title = ''Error'', description = Some ''Failed to add password'',
                       variant = Some ''destructive''\<rparr>],
               s\<lparr>formData := emptyForm\<rparr>, False) \<and>
            isAddDialogOpen (snd (handleSubmit_settled err resp s)) = isAddDialogOpen s) \<and>
         (err = None \<longrightarrow>
            handleSubmit err s =
              ([RemoteInsert [formData s],
                Toast \<lparr>title = ''Password added successfully'', description = None,
                       variant = None\<rparr>,
                RemoteSelect],
               s\<lparr>isAddDialogOpen := False, formData := emptyForm\<rparr>, True) \<and>
            isAddDialogOpen (snd (handleSubmit_settled err resp s)) = False \<and>
            snd (handleSubmit_settled err resp s) =
              snd (fetchPasswords_resume resp (s\<lparr>isAddDialogOpen := False, formData := emptyForm\<rparr>)))"
  using assms
  by (auto simp add: handleSubmit_settled_def handleSubmit_def fetchPasswords_resume_def split_beta
        split: option.split)

theorem C6_witness:
  "editingPassword example_state = None \<and> isAddDialogOpen example_state \<and>
   fst (handleSubmit (Some example_error) example_state) =
     [RemoteInsert [example_form],
      Toast \<lparr>title = ''Error'', description = Some ''Failed to add password'',
             variant = Some ''destructive''\<rparr>] \<and>
   isAddDialogOpen (snd (handleSubmit_settled (Some example_error) \<lparr>data = None, error = None\<rparr>
                           example_state)) \<and>
   fst (handleSubmit None example_state) =
     [RemoteInsert [example_form],
      Toast \<lparr>title = ''Password added successfully'', description = None, variant = None\<rparr>,
      RemoteSelect] \<and>
   \<not> isAddDialogOpen (snd (handleSubmit_settled None \<lparr>data = Some [], error = None\<rparr>
                           example_state)) \<and>
   passwords (snd (handleSubmit_settled None \<lparr>data = Some [], error = None\<rparr> example_state)) = []"
  using C6_create_branch [of example_state "Some example_error" "\<lparr>data = None, error = None\<rparr>"]
        C6_create_branch [of example_state None "\<lparr>data = Some [], error = None\<rparr>"]
  by (simp add: example_state_def fetchPasswords_resume_def)

section \<open>Properties of the edit button\<close>

text \<open>
  Claim C8. For every record \<open>p\<close>, the edit button sets \<^verbatim>\<open>editingPassword\<close> to \<open>p\<close> and
  \<^verbatim>\<open>formData\<close> to the website, username and password of \<open>p\<close>, with the notes of \<open>p\<close>, or
  the empty string when \<open>p\<close> has none; it calls nothing (no event) and leaves
  \<^verbatim>\<open>passwords\<close> as it was.
\<close>

theorem C8_edit_onClick:
  "edit_onClick p s =
     ([], s\<lparr>editingPassword := Some p,
            formData := \<lparr>website = website_p p, username = username_p p,
                         password = password_p p,
                         notes_f = (case notes_p p of None \<Rightarrow> [] | Some n \<Rightarrow> n)\<rparr>\<rparr>) \<and>
   passwords (snd (edit_onClick p s)) = passwords s"
  by (simp add: edit_onClick_def or_empty_def split: option.split)

section \<open>Properties of \<^verbatim>\<open>generatePassword\<close>\<close>

text \<open>
  Claim C10. \<^verbatim>\<open>generatePassword\<close> changes the \<^verbatim>\<open>password\<close> field of \<^verbatim>\<open>formData\<close> only:
  \<^verbatim>\<open>website\<close>, \<^verbatim>\<open>username\<close> and \<^verbatim>\<open>notes\<close> keep their values, as does every other state
  cell, and nothing is called.
\<close>

theorem C10_generatePassword_frame:
  "website (formData (snd (generatePassword random s))) = website (formData s) \<and>
   username (formData (snd (generatePassword random s))) = username (formData s) \<and>
   notes_f (formData (snd (generatePassword random s))) = notes_f (formData s) \<and>
   (snd (generatePassword random s))
     \<lparr>formData := (formData (snd (generatePassword random s)))
                     \<lparr>password := password (formData s)\<rparr>\<rparr> = s \<and>
   fst (generatePassword random s) = []"
  by (simp add: generatePassword_def)

theorem C10_witness:
  "website (formData (snd (generatePassword example_random example_state))) = ''example.org'' \<and>
   username (formData (snd (generatePassword example_random example_state))) = ''me'' \<and>
   notes_f (formData (snd (generatePassword example_random example_state))) = ''n''"
  using C10_generatePassword_frame [of example_random example_state]
  by (simp add: example_state_def example_form_def)

subsection \<open>The alphabet\<close>



subsection \<open>The rounded product\<close>

lemma bit_length_upper: "n < 2 ^ bit_length n"
proof (induction n rule: bit_length.induct)
  case (1 n)
  show ?case
  proof (cases "n = 0")
    case True
    then show ?thesis by simp
  next
    case False
    with 1 have "n div 2 < 2 ^ bit_length (n div 2)" by simp
    then have "n < 2 * 2 ^ bit_length (n div 2)" by linarith
    with False show ?thesis by (simp add: bit_length.simps [of n])
  qed
qed






subsection \<open>The generated password\<close>







section \<open>Properties of \<^verbatim>\<open>togglePasswordVisibility\<close>\<close>

lemma toggle_twice_shown:
  "shown (snd (togglePasswordVisibility ident (snd (togglePasswordVisibility ident s)))) ident
     = shown s ident"
  by (simp add: shown_def togglePasswordVisibility_def get_property_def split: option.split)

lemma toggle_other_own:
  "ident' \<noteq> ident \<Longrightarrow>
   showPasswords (snd (togglePasswordVisibility ident s)) ident' = showPasswords s ident'"
  by (simp add: togglePasswordVisibility_def)

lemma toggle_all_untouched:
  "ident \<notin> set idents \<Longrightarrow> showPasswords (toggle_all idents s) ident = showPasswords s ident"
  by (induction idents arbitrary: s) (auto simp: toggle_other_own)

text \<open>
  What holds of the code. For every id, one toggle flips the reading of its flag (shown
  or hidden) and toggling twice in a row gives the reading back. An id that was never
  toggled reads as hidden when it is not the name of a property of
  \<^verbatim>\<open>Object.prototype\<close>. The function changes \<^verbatim>\<open>showPasswords\<close> only and calls nothing
  (no event).
\<close>

lemma togglePasswordVisibility_properties:
  "shown (snd (togglePasswordVisibility ident s)) ident = (\<not> shown s ident) \<and>
   shown (snd (togglePasswordVisibility ident (snd (togglePasswordVisibility ident s)))) ident
     = shown s ident \<and>
   (ident \<notin> set idents \<and> ident \<notin> set Object_prototype \<longrightarrow>
      \<not> shown (toggle_all idents initial_state) ident) \<and>
   fst (togglePasswordVisibility ident s) = [] \<and>
   (snd (togglePasswordVisibility ident s))\<lparr>showPasswords := showPasswords s\<rparr> = s"
  using toggle_twice_shown [of ident s] toggle_all_untouched [of ident idents initial_state]
  by (simp add: shown_def get_property_def initial_state_def togglePasswordVisibility_def)

text \<open>
  Claim C7 says that the flag of an id that was never toggled reads as hidden. The code
  does otherwise for an id that is the name of a property of \<^verbatim>\<open>Object.prototype\<close>: the id
  \<^verbatim>\<open>constructor\<close> has no own property in the initial \<^verbatim>\<open>showPasswords\<close> and is never
  toggled, before or after another id is, yet \<^verbatim>\<open>showPasswords["constructor"]\<close> is the
  function inherited from \<^verbatim>\<open>Object.prototype\<close>, which is truthy: the card of such a
  record renders its password in clear.
\<close>

theorem C7_never_toggled_constructor_reads_shown:
  "showPasswords initial_state ''constructor'' = None \<and>
   shown (toggle_all [] initial_state) ''constructor'' \<and>
   shown (toggle_all [''7''] initial_state) ''constructor''"
  by (simp add: Object_prototype_def shown_def get_property_def togglePasswordVisibility_def
        initial_state_def)

end
